theory Spec2Isabelle
  imports Main "HOL-Library.Sublist" "HOL-Library.Multiset"
begin

section \<open>The box-and-marble puzzle: configuration generator and answer evaluation\<close>

text \<open>
  A shallow embedding of \<^verbatim>\<open>box-and-marble-script.js\<close>: the constants of
  \<^verbatim>\<open>GAME_CONFIG\<close>, the part of \<^verbatim>\<open>GameState\<close> that the generator and the
  evaluator read and write, the label check of the generator, the lookup of the
  evaluator, and the retry loop. The functions that only build or update DOM nodes are
  left out. JavaScript strings are modelled as \<^typ>\<open>string\<close>; every string literal of
  the script is ASCII.
\<close>

subsection \<open>Constants\<close>

definition BOX_LABELS :: "string list" where
  "BOX_LABELS = [''White and White'', ''Red and Red'', ''Red and White'']"

definition BOX_CONTENTS :: "string list" where
  "BOX_CONTENTS = [''white-white'', ''red-red'', ''red-white'']"

definition MAX_ATTEMPTS :: nat where
  "MAX_ATTEMPTS = 50"

definition BOX_COUNT :: nat where
  "BOX_COUNT = 3"

definition BOX_IDS :: "string list" where
  "BOX_IDS = [''matchbox-1'', ''matchbox-2'', ''matchbox-3'']"

subsection \<open>JavaScript values and property lookup\<close>

text \<open>
  The values a property read of the script can produce: a string, a built-in function
  or object (named, and equal only to itself, as \<^verbatim>\<open>===\<close> compares references), or
  \<^verbatim>\<open>undefined\<close>.
\<close>

datatype js_value =
    JSString string
  | JSFunction string
  | JSObject string
  | JSUndefined

text \<open>
  An object literal \<^verbatim>\<open>{...}\<close> and the object built by \<^verbatim>\<open>reduce\<close> from \<^verbatim>\<open>{}\<close>
  both have \<^verbatim>\<open>Object.prototype\<close> as prototype. These are the properties a read
  finds there when the object has no own property of that name.
\<close>

definition Object_prototype :: "(string \<times> js_value) list" where
  "Object_prototype =
     [(''constructor'', JSFunction ''Object''),
      (''hasOwnProperty'', JSFunction ''hasOwnProperty''),
      (''isPrototypeOf'', JSFunction ''isPrototypeOf''),
      (''propertyIsEnumerable'', JSFunction ''propertyIsEnumerable''),
      (''toLocaleString'', JSFunction ''toLocaleString''),
      (''toString'', JSFunction ''toString''),
      (''valueOf'', JSFunction ''valueOf''),
      (''__defineGetter__'', JSFunction ''__defineGetter__''),
      (''__defineSetter__'', JSFunction ''__defineSetter__''),
      (''__lookupGetter__'', JSFunction ''__lookupGetter__''),
      (''__lookupSetter__'', JSFunction ''__lookupSetter__''),
      (''__proto__'', JSObject ''Object.prototype'')]"

text \<open>
  \<^verbatim>\<open>obj[key]\<close> for an object whose own properties are the string-valued entries
  \<open>own\<close>: the own property if there is one, else the inherited one, else
  \<^verbatim>\<open>undefined\<close>.
\<close>

definition js_get :: "(string \<times> string) list \<Rightarrow> string \<Rightarrow> js_value" where
  "js_get own key =
     (case map_of own key of
        Some v \<Rightarrow> JSString v
      | None \<Rightarrow> (case map_of Object_prototype key of
                   Some v \<Rightarrow> v
                 | None \<Rightarrow> JSUndefined))"

fun truthy :: "js_value \<Rightarrow> bool" where
  "truthy (JSString s) = (s \<noteq> [])"
| "truthy (JSFunction f) = True"
| "truthy (JSObject ob) = True"
| "truthy JSUndefined = False"

text \<open>\<^verbatim>\<open>a || b\<close>\<close>

definition js_or :: "js_value \<Rightarrow> js_value \<Rightarrow> js_value" where
  "js_or a b = (if truthy a then a else b)"

subsection \<open>String operations\<close>

text \<open>
  \<^verbatim>\<open>String.prototype.toLowerCase\<close> on the ASCII letters; every other character of
  the 8-bit \<^typ>\<open>char\<close> is left as it is.
\<close>

definition toLowerCase_char :: "char \<Rightarrow> char" where
  "toLowerCase_char c =
     (case map_of (zip ''ABCDEFGHIJKLMNOPQRSTUVWXYZ'' ''abcdefghijklmnopqrstuvwxyz'') c of
        Some d \<Rightarrow> d
      | None \<Rightarrow> c)"

definition toLowerCase :: "string \<Rightarrow> string" where
  "toLowerCase s = map toLowerCase_char s"

text \<open>
  \<^verbatim>\<open>s.replace(pat, rep)\<close> with a string pattern: the first occurrence of \<open>pat\<close>
  is replaced, the rest of \<open>s\<close> is kept. The replacement of the script, \<^verbatim>\<open>'-'\<close>,
  has no \<^verbatim>\<open>$\<close> pattern.
\<close>

fun js_replace :: "string \<Rightarrow> string \<Rightarrow> string \<Rightarrow> string" where
  "js_replace pat rep [] = (if pat = [] then rep else [])"
| "js_replace pat rep (c # cs) =
     (if prefix pat (c # cs) then rep @ drop (length pat) (c # cs)
      else c # js_replace pat rep cs)"

subsection \<open>Boxes and the game state\<close>

text \<open>
  \<open>testBox\<close> is the object \<^verbatim>\<open>{ contents, label }\<close> that \<^verbatim>\<open>assignLabelToBox\<close>
  builds; a box of \<^verbatim>\<open>GameState.boxes\<close> has an \<^verbatim>\<open>id\<close> as well (its \<^verbatim>\<open>element\<close>
  is a DOM node and is not modelled). The functions that read only \<^verbatim>\<open>contents\<close> and
  \<^verbatim>\<open>label\<close> accept both.
\<close>

record testBox =
  contents :: string
  label :: string

record box = testBox +
  box_id :: string

text \<open>
  \<open>userLabelSelections\<close> is an object keyed by box id; its entries are kept in
  insertion order, as \<^verbatim>\<open>Object.values\<close> reads them.
\<close>

record game_state =
  boxes :: "box list"
  userLabelSelections :: "(string \<times> string) list"

definition GameState :: game_state where
  "GameState =
     \<lparr>boxes = map (\<lambda>i. \<lparr>contents = [], label = [], box_id = i\<rparr>) BOX_IDS,
      userLabelSelections = map (\<lambda>i. (i, [])) BOX_IDS\<rparr>"

text \<open>
  \<^verbatim>\<open>GameState.reset()\<close>: every selection and the contents and label of every box
  become the empty string.
\<close>

definition GameState_reset :: "game_state \<Rightarrow> game_state" where
  "GameState_reset st =
     \<lparr>boxes = map (\<lambda>b. b\<lparr>contents := [], label := []\<rparr>) (boxes st),
      userLabelSelections = map (\<lambda>i. (i, [])) BOX_IDS\<rparr>"

subsection \<open>Game logic and validation\<close>

definition checkContentsMatchLabel :: "'a testBox_scheme \<Rightarrow> bool" where
  "checkContentsMatchLabel b =
     (let normalizedLabel = js_replace '' and '' ''-'' (toLowerCase (label b))
      in normalizedLabel = contents b)"

definition contentsToLabel :: "(string \<times> string) list" where
  "contentsToLabel =
     [(''white-white'', ''White and White''),
      (''red-red'', ''Red and Red''),
      (''red-white'', ''Red and White'')]"

definition getCorrectLabelForBox :: "'a testBox_scheme \<Rightarrow> js_value" where
  "getCorrectLabelForBox b = js_or (js_get contentsToLabel (contents b)) (JSString [])"

subsection \<open>Answer checking\<close>

record detail =
  boxId :: string
  boxNumber :: nat
  userSelection :: js_value
  correctLabel :: js_value
  actualContents :: string
  isCorrect :: bool

record results =
  correct :: nat
  total_n :: nat
  details :: "detail list"

text \<open>
  The body of the \<^verbatim>\<open>forEach\<close> callback of \<^verbatim>\<open>calculateResults\<close>, for the box at
  position \<open>index\<close>; \<^verbatim>\<open>===\<close> on two values of \<^typ>\<open>js_value\<close> is their equality.
\<close>

definition calculateResults_step ::
    "(string \<times> string) list \<Rightarrow> results \<Rightarrow> nat \<times> box \<Rightarrow> results" where
  "calculateResults_step selections res ib =
     (case ib of (index, b) \<Rightarrow>
        let userSelection = js_get selections (box_id b);
            correctLabel = getCorrectLabelForBox b;
            isCorrect = (userSelection = correctLabel);
            res1 = (if isCorrect then res\<lparr>correct := correct res + 1\<rparr> else res)
        in res1\<lparr>details := details res1 @
             [\<lparr>boxId = box_id b,
               boxNumber = index + 1,
               userSelection = userSelection,
               correctLabel = correctLabel,
               actualContents = contents b,
               isCorrect = isCorrect\<rparr>]\<rparr>)"

definition calculateResults :: "game_state \<Rightarrow> results" where
  "calculateResults st =
     foldl (calculateResults_step (userLabelSelections st))
       \<lparr>correct = 0, total_n = length (boxes st), details = []\<rparr>
       (enumerate 0 (boxes st))"

datatype js_error = TypeError

text \<open>
  \<^verbatim>\<open>checkAnswers\<close> computes the results and hands them to \<^verbatim>\<open>displayResults\<close>. Its
  outcome is an exception or the results displayed; no statement of it or of
  \<^verbatim>\<open>calculateResults\<close> throws, and none inspects the selections before scoring.
\<close>

definition checkAnswers :: "game_state \<Rightarrow> js_error + results" where
  "checkAnswers st = Inr (calculateResults st)"

text \<open>
  The test of \<^verbatim>\<open>updateSubmitButtonState\<close>: every selection is a non-empty string.
  The script evaluates it in the change listener of a label selector only; neither
  \<^verbatim>\<open>checkAnswers\<close> nor \<^verbatim>\<open>calculateResults\<close> does.
\<close>

definition allSelected :: "game_state \<Rightarrow> bool" where
  "allSelected st = list_all (\<lambda>l. l \<noteq> []) (map snd (userLabelSelections st))"

subsection \<open>Puzzle generation\<close>

text \<open>
  The two loops over the shuffled arrays. Each returns the function's boolean, the box
  as the function leaves it, and the set of used values as it leaves it.
\<close>

fun assignContentToBox :: "box \<Rightarrow> string list \<Rightarrow> string set \<Rightarrow> bool \<times> box \<times> string set" where
  "assignContentToBox b [] usedContents = (False, b, usedContents)"
| "assignContentToBox b (content # rest) usedContents =
     (if content \<notin> usedContents
      then (True, b\<lparr>contents := content\<rparr>, insert content usedContents)
      else assignContentToBox b rest usedContents)"

fun assignLabelToBox :: "box \<Rightarrow> string list \<Rightarrow> string set \<Rightarrow> bool \<times> box \<times> string set" where
  "assignLabelToBox b [] usedLabels = (False, b, usedLabels)"
| "assignLabelToBox b (l # rest) usedLabels =
     (if l \<notin> usedLabels \<and> \<not> checkContentsMatchLabel \<lparr>contents = contents b, label = l\<rparr>
      then (True, b\<lparr>label := l\<rparr>, insert l usedLabels)
      else assignLabelToBox b rest usedLabels)"

text \<open>
  The \<^verbatim>\<open>for (const box of GameState.boxes)\<close> loop of
  \<^verbatim>\<open>tryGenerateValidConfiguration\<close>: it stops at the first box that gets no content
  or no label, and leaves the boxes before it assigned.
\<close>

fun assignBoxes ::
    "box list \<Rightarrow> string list \<Rightarrow> string list \<Rightarrow> string set \<Rightarrow> string set \<Rightarrow> bool \<times> box list" where
  "assignBoxes [] shuffledContents shuffledLabels usedContents usedLabels = (True, [])"
| "assignBoxes (b # bs) shuffledContents shuffledLabels usedContents usedLabels =
     (case assignContentToBox b shuffledContents usedContents of
        (okc, b1, usedContents1) \<Rightarrow>
          if \<not> okc then (False, b1 # bs)
          else (case assignLabelToBox b1 shuffledLabels usedLabels of
                  (okl, b2, usedLabels1) \<Rightarrow>
                    if \<not> okl then (False, b2 # bs)
                    else (case assignBoxes bs shuffledContents shuffledLabels
                                 usedContents1 usedLabels1 of
                            (ok, bs1) \<Rightarrow> (ok, b2 # bs1))))"

text \<open>
  \<^verbatim>\<open>[...xs].sort(() => Math.random() - 0.5)\<close> returns the elements of \<open>xs\<close> in an
  order that depends on the random source and on the engine's sorting algorithm. The
  model takes the two sorted arrays of one attempt as the argument \<open>shuffled\<close>;
  \<open>isShuffleOf\<close> says what every engine guarantees of them: the same elements, each
  as often as in \<open>xs\<close>.
\<close>

definition isShuffleOf :: "string list \<Rightarrow> string list \<Rightarrow> bool" where
  "isShuffleOf ys xs = (mset ys = mset xs)"

definition tryGenerateValidConfiguration ::
    "string list \<times> string list \<Rightarrow> game_state \<Rightarrow> bool \<times> game_state" where
  "tryGenerateValidConfiguration shuffled st =
     (case shuffled of (shuffledContents, shuffledLabels) \<Rightarrow>
        (case assignBoxes (map (\<lambda>b. b\<lparr>contents := [], label := []\<rparr>) (boxes st))
                shuffledContents shuffledLabels {} {} of
           (ok, bs) \<Rightarrow> (ok, st\<lparr>boxes := bs\<rparr>)))"

text \<open>
  \<^verbatim>\<open>GameState.boxes[i].contents = ...\<close> throws a TypeError when there is no box at
  index \<open>i\<close>; the exception ends the call, and the model keeps no state for it. With
  three boxes or more the six assignments overwrite the first three boxes.
\<close>

definition setFallbackConfiguration :: "game_state \<Rightarrow> js_error + game_state" where
  "setFallbackConfiguration st =
     (if length (boxes st) < 3 then Inl TypeError
      else Inr (st\<lparr>boxes :=
        (boxes st)
          [0 := (boxes st ! 0)\<lparr>contents := ''white-white'', label := ''Red and Red''\<rparr>,
           1 := (boxes st ! 1)\<lparr>contents := ''red-red'', label := ''Red and White''\<rparr>,
           2 := (boxes st ! 2)\<lparr>contents := ''red-white'', label := ''White and White''\<rparr>]\<rparr>))"

text \<open>
  The \<^verbatim>\<open>while\<close> loop of \<^verbatim>\<open>generatePuzzleConfiguration\<close>. \<open>rnd n\<close> is the pair of
  shuffled arrays that the random source gives the attempt made when \<^verbatim>\<open>attempts\<close> is
  \<open>n\<close>. The loop returns the number of calls of \<^verbatim>\<open>tryGenerateValidConfiguration\<close> made
  so far, whether the last one succeeded, and the state.
\<close>

function generateLoop ::
    "(nat \<Rightarrow> string list \<times> string list) \<Rightarrow> nat \<Rightarrow> game_state \<Rightarrow> nat \<times> bool \<times> game_state" where
  "generateLoop rnd attempts st =
     (if attempts < MAX_ATTEMPTS then
        (let r = tryGenerateValidConfiguration (rnd attempts) st in
         if fst r then (attempts + 1, True, snd r)
         else generateLoop rnd (attempts + 1) (snd r))
      else (attempts, False, st))"
  by pat_completeness auto
termination
  by (relation "measure (\<lambda>(rnd, attempts, st). MAX_ATTEMPTS - attempts)") auto

declare generateLoop.simps [simp del]

definition generatePuzzleConfiguration ::
    "(nat \<Rightarrow> string list \<times> string list) \<Rightarrow> game_state \<Rightarrow> js_error + game_state" where
  "generatePuzzleConfiguration rnd st =
     (case generateLoop rnd 0 st of
        (n, ok, st1) \<Rightarrow> if ok then Inr st1 else setFallbackConfiguration st1)"

definition attemptsMade :: "(nat \<Rightarrow> string list \<times> string list) \<Rightarrow> game_state \<Rightarrow> nat" where
  "attemptsMade rnd st = fst (generateLoop rnd 0 st)"

text \<open>
  \<^verbatim>\<open>resetGame\<close>, the handler of the Play Again button, as far as it writes the game
  state: \<^verbatim>\<open>GameState.reset()\<close>, then \<^verbatim>\<open>initializeGame\<close>, which generates the next
  configuration. Its other statements update the document.
\<close>

definition resetGame ::
    "(nat \<Rightarrow> string list \<times> string list) \<Rightarrow> game_state \<Rightarrow> js_error + game_state" where
  "resetGame rnd st = generatePuzzleConfiguration rnd (GameState_reset st)"

text \<open>
  The three invariants of a configuration: the contents are the three content kinds,
  each once; the labels are the three labels, each once; and no box carries the label
  that the evaluator derives from its contents.
\<close>

definition validConfiguration :: "box list \<Rightarrow> bool" where
  "validConfiguration bs =
     (length bs = 3 \<and>
      distinct (map contents bs) \<and> set (map contents bs) = set BOX_CONTENTS \<and>
      distinct (map label bs) \<and> set (map label bs) = set BOX_LABELS \<and>
      list_all (\<lambda>b. JSString (label b) \<noteq> getCorrectLabelForBox b) bs)"

subsection \<open>The label scan restated with the evaluator's lookup\<close>

text \<open>
  \<^verbatim>\<open>assignLabelToBox\<close> as it would read if it asked the evaluator's table whether a
  label is the true one, instead of normalising the label string. It is compared with
  the function of the script below.
\<close>

fun assignLabelToBox_byLookup ::
    "box \<Rightarrow> string list \<Rightarrow> string set \<Rightarrow> bool \<times> box \<times> string set" where
  "assignLabelToBox_byLookup b [] usedLabels = (False, b, usedLabels)"
| "assignLabelToBox_byLookup b (l # rest) usedLabels =
     (if l \<notin> usedLabels \<and>
         JSString l \<noteq> getCorrectLabelForBox \<lparr>contents = contents b, label = l\<rparr>
      then (True, b\<lparr>label := l\<rparr>, insert l usedLabels)
      else assignLabelToBox_byLookup b rest usedLabels)"

subsection \<open>Example inputs\<close>

text \<open>
  Two random sources: with \<open>identityShuffles\<close> both sorts leave the arrays in their
  order, and every attempt fails at the third box; with \<open>rotatedShuffles\<close> the labels
  come out rotated, and the first attempt succeeds.
\<close>

definition identityShuffles :: "nat \<Rightarrow> string list \<times> string list" where
  "identityShuffles = (\<lambda>n. (BOX_CONTENTS, BOX_LABELS))"

definition rotatedShuffles :: "nat \<Rightarrow> string list \<times> string list" where
  "rotatedShuffles = (\<lambda>n. (BOX_CONTENTS, [''Red and White'', ''White and White'', ''Red and Red'']))"

text \<open>The boxes that the first attempt assigns from \<open>rotatedShuffles\<close>.\<close>

definition rotatedBoxes :: "box list" where
  "rotatedBoxes =
     [\<lparr>contents = ''white-white'', label = ''Red and White'', box_id = ''matchbox-1''\<rparr>,
      \<lparr>contents = ''red-red'', label = ''White and White'', box_id = ''matchbox-2''\<rparr>,
      \<lparr>contents = ''red-white'', label = ''Red and Red'', box_id = ''matchbox-3''\<rparr>]"

text \<open>The boxes of the fallback configuration, and two sets of guesses for them.\<close>

definition fallbackBoxes :: "box list" where
  "fallbackBoxes =
     [\<lparr>contents = ''white-white'', label = ''Red and Red'', box_id = ''matchbox-1''\<rparr>,
      \<lparr>contents = ''red-red'', label = ''Red and White'', box_id = ''matchbox-2''\<rparr>,
      \<lparr>contents = ''red-white'', label = ''White and White'', box_id = ''matchbox-3''\<rparr>]"

definition perfectGuessState :: game_state where
  "perfectGuessState =
     \<lparr>boxes = fallbackBoxes,
      userLabelSelections =
        [(''matchbox-1'', ''White and White''),
         (''matchbox-2'', ''Red and Red''),
         (''matchbox-3'', ''Red and White'')]\<rparr>"

definition swappedGuessState :: game_state where
  "swappedGuessState =
     \<lparr>boxes = fallbackBoxes,
      userLabelSelections =
        [(''matchbox-1'', ''Red and Red''),
         (''matchbox-2'', ''White and White''),
         (''matchbox-3'', ''Red and White'')]\<rparr>"

text \<open>
  The state after a finished round is reset with \<open>rotatedShuffles\<close>: a new
  configuration, and no label selected yet.
\<close>

definition afterResetState :: game_state where
  "afterResetState =
     \<lparr>boxes = rotatedBoxes,
      userLabelSelections =
        [(''matchbox-1'', []), (''matchbox-2'', []), (''matchbox-3'', [])]\<rparr>"



section \<open>Auxiliary lemmas\<close>

subsection \<open>The label check and the lookup\<close>

lemma normalizedLabel_values:
  "js_replace '' and '' ''-'' (toLowerCase ''White and White'') = ''white-white''"
  "js_replace '' and '' ''-'' (toLowerCase ''Red and Red'') = ''red-red''"
  "js_replace '' and '' ''-'' (toLowerCase ''Red and White'') = ''red-white''"
  by (simp_all add: toLowerCase_def toLowerCase_char_def)

lemma getCorrectLabelForBox_values:
  "contents b = ''white-white'' \<Longrightarrow> getCorrectLabelForBox b = JSString ''White and White''"
  "contents b = ''red-red'' \<Longrightarrow> getCorrectLabelForBox b = JSString ''Red and Red''"
  "contents b = ''red-white'' \<Longrightarrow> getCorrectLabelForBox b = JSString ''Red and White''"
  by (simp_all add: getCorrectLabelForBox_def js_get_def js_or_def contentsToLabel_def)

lemma match_iff_lookup:
  assumes "contents b \<in> set BOX_CONTENTS" and "label b \<in> set BOX_LABELS"
  shows "checkContentsMatchLabel b \<longleftrightarrow> JSString (label b) = getCorrectLabelForBox b"
proof -
  from assms(2) have "label b = ''White and White'' \<or> label b = ''Red and Red'' \<or> label b = ''Red and White''"
    by (simp add: BOX_LABELS_def)
  moreover from assms(1) have "contents b = ''white-white'' \<or> contents b = ''red-red'' \<or> contents b = ''red-white''"
    by (simp add: BOX_CONTENTS_def)
  ultimately show ?thesis
    by (elim disjE) (simp_all add: checkContentsMatchLabel_def normalizedLabel_values getCorrectLabelForBox_values)
qed

subsection \<open>One attempt of the generator\<close>

lemma assignContentToBox_True:
  "assignContentToBox b sc uc = (True, b1, uc1) \<Longrightarrow>
     contents b1 \<in> set sc \<and> contents b1 \<notin> uc \<and> uc1 = insert (contents b1) uc \<and>
     label b1 = label b \<and> box_id b1 = box_id b"
  by (induction sc) (auto split: if_splits)

lemma assignLabelToBox_True:
  "assignLabelToBox b sl ul = (True, b1, ul1) \<Longrightarrow>
     label b1 \<in> set sl \<and> label b1 \<notin> ul \<and> ul1 = insert (label b1) ul \<and>
     contents b1 = contents b \<and> box_id b1 = box_id b \<and> \<not> checkContentsMatchLabel b1"
  by (induction sl) (auto split: if_splits simp: checkContentsMatchLabel_def)

lemma assignContentToBox_id: "box_id (fst (snd (assignContentToBox b sc uc))) = box_id b"
  by (induction sc) auto

lemma assignLabelToBox_id: "box_id (fst (snd (assignLabelToBox b sl ul))) = box_id b"
  by (induction sl) auto

lemma assignBoxes_ids: "map box_id (snd (assignBoxes bs sc sl uc ul)) = map box_id bs"
proof (induction bs arbitrary: uc ul)
  case Nil
  show ?case by simp
next
  case (Cons b bs)
  obtain okc b1 uc1 where c: "assignContentToBox b sc uc = (okc, b1, uc1)"
    by (cases "assignContentToBox b sc uc") auto
  obtain okl b2 ul1 where l: "assignLabelToBox b1 sl ul = (okl, b2, ul1)"
    by (cases "assignLabelToBox b1 sl ul") auto
  have i1: "box_id b1 = box_id b" using assignContentToBox_id [of b sc uc] c by simp
  have i2: "box_id b2 = box_id b1" using assignLabelToBox_id [of b1 sl ul] l by simp
  show ?case using Cons.IH [of uc1 ul1] c l i1 i2
    by (auto split: prod.splits)
qed

lemma assignBoxes_True:
  "assignBoxes bs sc sl uc ul = (True, bs1) \<Longrightarrow>
     length bs1 = length bs \<and>
     distinct (map contents bs1) \<and> set (map contents bs1) \<subseteq> set sc - uc \<and>
     distinct (map label bs1) \<and> set (map label bs1) \<subseteq> set sl - ul \<and>
     (\<forall>b\<in>set bs1. \<not> checkContentsMatchLabel b)"
proof (induction bs arbitrary: uc ul bs1)
  case Nil
  then show ?case by simp
next
  case (Cons b bs)
  obtain okc b1 uc1 where c: "assignContentToBox b sc uc = (okc, b1, uc1)"
    by (cases "assignContentToBox b sc uc") auto
  obtain okl b2 ul1 where l: "assignLabelToBox b1 sl ul = (okl, b2, ul1)"
    by (cases "assignLabelToBox b1 sl ul") auto
  obtain ok bs2 where r: "assignBoxes bs sc sl uc1 ul1 = (ok, bs2)"
    by (cases "assignBoxes bs sc sl uc1 ul1") auto
  from Cons.prems c have okc: okc by (auto split: if_splits)
  with Cons.prems c l have okl: okl by (auto split: if_splits)
  with Cons.prems c l r okc have ok: ok and bs1: "bs1 = b2 # bs2" by auto
  note C = assignContentToBox_True [OF c [unfolded eqTrueI [OF okc]]]
  note L = assignLabelToBox_True [OF l [unfolded eqTrueI [OF okl]]]
  note R = Cons.IH [OF r [unfolded eqTrueI [OF ok]]]
  show ?case unfolding bs1 using C L R by auto
qed


lemma three_distinct_eq:
  assumes "length xs = 3" "distinct xs" "set xs \<subseteq> set ys" "mset ys = mset zs" "length zs = 3"
  shows "set xs = set zs"
proof -
  have "set ys = set zs" using assms(4) by (rule mset_eq_setD)
  moreover have "card (set zs) \<le> 3" using card_length [of zs] assms(5) by simp
  moreover have "card (set xs) = 3" using assms(1,2) by (simp add: distinct_card)
  ultimately show ?thesis
    using assms(3) card_seteq [of "set zs" "set xs"] by simp
qed

lemma tryGenerateValidConfiguration_ids:
  "map box_id (boxes (snd (tryGenerateValidConfiguration sh st))) = map box_id (boxes st)"
proof -
  obtain sc sl where sh: "sh = (sc, sl)" by (cases sh)
  show ?thesis
    using assignBoxes_ids [of "map (\<lambda>b. b\<lparr>contents := [], label := []\<rparr>) (boxes st)" sc sl "{}" "{}"]
    by (auto simp: tryGenerateValidConfiguration_def sh comp_def split: prod.splits)
qed

lemma tryGenerateValidConfiguration_selections:
  "userLabelSelections (snd (tryGenerateValidConfiguration sh st)) = userLabelSelections st"
  by (simp add: tryGenerateValidConfiguration_def split: prod.splits)

lemma tryGenerateValidConfiguration_valid:
  assumes ok: "fst (tryGenerateValidConfiguration sh st)"
    and sc: "isShuffleOf (fst sh) BOX_CONTENTS" and sl: "isShuffleOf (snd sh) BOX_LABELS"
    and len: "length (boxes st) = 3"
  shows "validConfiguration (boxes (snd (tryGenerateValidConfiguration sh st)))"
proof -
  obtain shc shl where sh: "sh = (shc, shl)" by (cases sh)
  let ?bs0 = "map (\<lambda>b. b\<lparr>contents := [], label := []\<rparr>) (boxes st)"
  obtain bs1 where a: "assignBoxes ?bs0 shc shl {} {} = (True, bs1)"
    and r: "boxes (snd (tryGenerateValidConfiguration sh st)) = bs1"
    using ok by (cases "assignBoxes ?bs0 shc shl {} {}")
      (auto simp: tryGenerateValidConfiguration_def sh)
  note A = assignBoxes_True [OF a]
  have l3: "length bs1 = 3" using A len by simp
  have cs: "set (map contents bs1) = set BOX_CONTENTS"
    using three_distinct_eq [of "map contents bs1" shc BOX_CONTENTS] A l3 sc
    by (auto simp: isShuffleOf_def sh BOX_CONTENTS_def)
  have ls: "set (map label bs1) = set BOX_LABELS"
    using three_distinct_eq [of "map label bs1" shl BOX_LABELS] A l3 sl
    by (auto simp: isShuffleOf_def sh BOX_LABELS_def)
  have "JSString (label b) \<noteq> getCorrectLabelForBox b" if "b \<in> set bs1" for b
  proof -
    have "contents b \<in> set BOX_CONTENTS" "label b \<in> set BOX_LABELS"
      using that cs ls by auto
    then show ?thesis using match_iff_lookup [of b] A that by blast
  qed
  then show ?thesis
    unfolding r validConfiguration_def using l3 A cs ls by (simp add: list_all_iff)
qed

subsection \<open>The retry loop\<close>

lemma generateLoop_bound:
  "generateLoop rnd a st = (n, ok, st1) \<Longrightarrow> a \<le> MAX_ATTEMPTS \<Longrightarrow>
     n \<le> MAX_ATTEMPTS \<and> (\<not> ok \<longrightarrow> n = MAX_ATTEMPTS) \<and> (ok \<longrightarrow> a < n)"
proof (induction rnd a st rule: generateLoop.induct)
  case (1 rnd attempts st)
  show ?case
  proof (cases "attempts < MAX_ATTEMPTS")
    case True
    show ?thesis
    proof (cases "fst (tryGenerateValidConfiguration (rnd attempts) st)")
      case ok: True
      then show ?thesis using "1.prems" True
        by (subst (asm) generateLoop.simps) auto
    next
      case False
      have "generateLoop rnd (attempts + 1) (snd (tryGenerateValidConfiguration (rnd attempts) st)) = (n, ok, st1)"
        using "1.prems"(1) True False by (subst (asm) generateLoop.simps) simp
      from "1.IH" [OF True refl False this] True show ?thesis by auto
    qed
  next
    case False
    then show ?thesis using "1.prems"
      by (subst (asm) generateLoop.simps) auto
  qed
qed

lemma generateLoop_frame:
  "generateLoop rnd a st = (n, ok, st1) \<Longrightarrow>
     map box_id (boxes st1) = map box_id (boxes st) \<and>
     userLabelSelections st1 = userLabelSelections st"
proof (induction rnd a st rule: generateLoop.induct)
  case (1 rnd attempts st)
  let ?r = "tryGenerateValidConfiguration (rnd attempts) st"
  show ?case
  proof (cases "attempts < MAX_ATTEMPTS")
    case True
    show ?thesis
    proof (cases "fst ?r")
      case ok: True
      have "st1 = snd ?r" using "1.prems" True ok
        by (subst (asm) generateLoop.simps) auto
      then show ?thesis
        by (simp add: tryGenerateValidConfiguration_ids tryGenerateValidConfiguration_selections)
    next
      case False
      have "generateLoop rnd (attempts + 1) (snd ?r) = (n, ok, st1)"
        using "1.prems"(1) True False by (subst (asm) generateLoop.simps) simp
      from "1.IH" [OF True refl False this] show ?thesis
        by (simp add: tryGenerateValidConfiguration_ids tryGenerateValidConfiguration_selections)
    qed
  next
    case False
    then show ?thesis using "1.prems"
      by (subst (asm) generateLoop.simps) auto
  qed
qed

lemma generateLoop_success:
  "generateLoop rnd a st = (n, True, st1) \<Longrightarrow>
     \<exists>st0. map box_id (boxes st0) = map box_id (boxes st) \<and> a < n \<and>
       fst (tryGenerateValidConfiguration (rnd (n - 1)) st0) \<and>
       st1 = snd (tryGenerateValidConfiguration (rnd (n - 1)) st0)"
proof (induction rnd a st rule: generateLoop.induct)
  case (1 rnd attempts st)
  let ?r = "tryGenerateValidConfiguration (rnd attempts) st"
  show ?case
  proof (cases "attempts < MAX_ATTEMPTS")
    case True
    show ?thesis
    proof (cases "fst ?r")
      case ok: True
      have "st1 = snd ?r \<and> n = attempts + 1" using "1.prems" True ok
        by (subst (asm) generateLoop.simps) auto
      then show ?thesis using ok by (intro exI [of _ st]) simp
    next
      case False
      have "generateLoop rnd (attempts + 1) (snd ?r) = (n, True, st1)"
        using "1.prems"(1) True False by (subst (asm) generateLoop.simps) simp
      from "1.IH" [OF True refl False this] show ?thesis
        by (auto simp: tryGenerateValidConfiguration_ids)
    qed
  next
    case False
    then show ?thesis using "1.prems"
      by (subst (asm) generateLoop.simps) auto
  qed
qed

lemma assignContentToBox_find:
  "assignContentToBox b sc uc =
     (case find (\<lambda>c. c \<notin> uc) sc of
        None \<Rightarrow> (False, b, uc)
      | Some c \<Rightarrow> (True, b\<lparr>contents := c\<rparr>, insert c uc))"
  by (induction sc) auto

lemma assignLabelToBox_find:
  "assignLabelToBox b sl ul =
     (case find (\<lambda>l. l \<notin> ul \<and> \<not> checkContentsMatchLabel \<lparr>contents = contents b, label = l\<rparr>) sl of
        None \<Rightarrow> (False, b, ul)
      | Some l \<Rightarrow> (True, b\<lparr>label := l\<rparr>, insert l ul))"
  by (induction sl) auto

lemma assignBoxes_flag:
  "length bs = length bs' \<Longrightarrow>
     fst (assignBoxes bs sc sl uc ul) = fst (assignBoxes bs' sc sl uc ul)"
proof (induction bs bs' arbitrary: uc ul rule: list_induct2)
  case Nil
  show ?case by simp
next
  case (Cons b bs b' bs')
  show ?case
    using Cons.IH
    by (auto simp: assignContentToBox_find assignLabelToBox_find split: option.splits prod.splits)
      (metis fst_conv)+
qed

lemma tryGenerateValidConfiguration_flag:
  "length (boxes st) = length (boxes st') \<Longrightarrow>
     fst (tryGenerateValidConfiguration sh st) = fst (tryGenerateValidConfiguration sh st')"
  using assignBoxes_flag [of "map (\<lambda>b. b\<lparr>contents := [], label := []\<rparr>) (boxes st)"
      "map (\<lambda>b. b\<lparr>contents := [], label := []\<rparr>) (boxes st')" "fst sh" "snd sh" "{}" "{}"]
  by (auto simp: tryGenerateValidConfiguration_def split: prod.splits)

lemma tryGenerateValidConfiguration_length:
  "length (boxes (snd (tryGenerateValidConfiguration sh st))) = length (boxes st)"
  using tryGenerateValidConfiguration_ids [of sh st] by (metis length_map)

lemma generateLoop_flag:
  "generateLoop rnd a st = (n, ok, st1) \<Longrightarrow>
     ok \<longleftrightarrow> (\<exists>k. a \<le> k \<and> k < MAX_ATTEMPTS \<and> fst (tryGenerateValidConfiguration (rnd k) st))"
proof (induction rnd a st rule: generateLoop.induct)
  case (1 rnd attempts st)
  let ?r = "tryGenerateValidConfiguration (rnd attempts) st"
  show ?case
  proof (cases "attempts < MAX_ATTEMPTS")
    case True
    show ?thesis
    proof (cases "fst ?r")
      case ok: True
      have "ok" using "1.prems" True ok
        by (subst (asm) generateLoop.simps) auto
      then show ?thesis using ok True by auto
    next
      case False
      have "generateLoop rnd (attempts + 1) (snd ?r) = (n, ok, st1)"
        using "1.prems"(1) True False by (subst (asm) generateLoop.simps) simp
      from "1.IH" [OF True refl False this]
      have "ok \<longleftrightarrow> (\<exists>k. attempts + 1 \<le> k \<and> k < MAX_ATTEMPTS \<and>
              fst (tryGenerateValidConfiguration (rnd k) (snd ?r)))" .
      also have "\<dots> \<longleftrightarrow> (\<exists>k. attempts + 1 \<le> k \<and> k < MAX_ATTEMPTS \<and>
              fst (tryGenerateValidConfiguration (rnd k) st))"
        using tryGenerateValidConfiguration_flag [OF tryGenerateValidConfiguration_length [of "rnd attempts" st]]
        by simp
      also have "\<dots> \<longleftrightarrow> (\<exists>k. attempts \<le> k \<and> k < MAX_ATTEMPTS \<and>
              fst (tryGenerateValidConfiguration (rnd k) st))"
        using False by (metis Suc_eq_plus1 Suc_leD Suc_leI le_neq_implies_less)
      finally show ?thesis .
    qed
  next
    case False
    then have "\<not> ok" using "1.prems"
      by (subst (asm) generateLoop.simps) auto
    then show ?thesis using False by auto
  qed
qed

lemma fallback_valid:
  assumes "map (\<lambda>b. (contents b, label b)) bs =
             [(''white-white'', ''Red and Red''), (''red-red'', ''Red and White''),
              (''red-white'', ''White and White'')]"
  shows "validConfiguration bs"
proof -
  obtain a b c where bs: "bs = [a, b, c]"
    using assms by (auto simp: map_eq_Cons_conv)
  show ?thesis using assms
    by (simp add: bs validConfiguration_def BOX_CONTENTS_def BOX_LABELS_def
        getCorrectLabelForBox_values) auto
qed

subsection \<open>The evaluator\<close>

lemma calculateResults_step_simps:
  "correct (calculateResults_step sel r (n, b)) =
     (if js_get sel (box_id b) = getCorrectLabelForBox b then correct r + 1 else correct r)"
  "total_n (calculateResults_step sel r (n, b)) = total_n r"
  "details (calculateResults_step sel r (n, b)) = details r @
     [\<lparr>boxId = box_id b, boxNumber = n + 1, userSelection = js_get sel (box_id b),
       correctLabel = getCorrectLabelForBox b, actualContents = contents b,
       isCorrect = (js_get sel (box_id b) = getCorrectLabelForBox b)\<rparr>]"
  by (simp_all add: calculateResults_step_def Let_def)

lemma fold_correct:
  "correct (foldl (calculateResults_step sel) r (enumerate n bs)) =
     correct r + length (filter (\<lambda>b. js_get sel (box_id b) = getCorrectLabelForBox b) bs)"
  by (induction bs arbitrary: r n) (simp_all add: calculateResults_step_simps)

lemma fold_total: "total_n (foldl (calculateResults_step sel) r (enumerate n bs)) = total_n r"
  by (induction bs arbitrary: r n) (simp_all add: calculateResults_step_simps)

lemma fold_isCorrect:
  "map isCorrect (details (foldl (calculateResults_step sel) r (enumerate n bs))) =
     map isCorrect (details r) @
     map (\<lambda>b. js_get sel (box_id b) = getCorrectLabelForBox b) bs"
  by (induction bs arbitrary: r n) (simp_all add: calculateResults_step_simps)

lemma fold_userSelection:
  "map userSelection (details (foldl (calculateResults_step sel) r (enumerate n bs))) =
     map userSelection (details r) @ map (\<lambda>b. js_get sel (box_id b)) bs"
  by (induction bs arbitrary: r n) (simp_all add: calculateResults_step_simps)

lemma fold_correctLabel:
  "map correctLabel (details (foldl (calculateResults_step sel) r (enumerate n bs))) =
     map correctLabel (details r) @ map getCorrectLabelForBox bs"
  by (induction bs arbitrary: r n) (simp_all add: calculateResults_step_simps)

lemma getCorrectLabelForBox_contents:
  "contents b1 = contents b2 \<Longrightarrow> getCorrectLabelForBox b1 = getCorrectLabelForBox b2"
  by (simp add: getCorrectLabelForBox_def)

lemma fold_cong:
  "list_all2 (\<lambda>b b'. box_id b = box_id b' \<and> contents b = contents b') bs bs' \<Longrightarrow>
     foldl (calculateResults_step sel) r (enumerate n bs) =
     foldl (calculateResults_step sel) r (enumerate n bs')"
proof (induction bs bs' arbitrary: r n rule: list_all2_induct)
  case Nil
  show ?case by simp
next
  case (Cons b bs b' bs')
  have "calculateResults_step sel r (n, b) = calculateResults_step sel r (n, b')"
    using Cons.hyps(1) by (simp add: calculateResults_step_def getCorrectLabelForBox_def)
  then show ?case using Cons.IH by simp
qed

lemma relabel_related:
  "list_all2 (\<lambda>b b'. box_id b = box_id b' \<and> contents b = contents b')
     (bs[i := (bs ! i)\<lparr>label := l\<rparr>]) bs"
  by (cases "i < length bs") (simp_all add: list_all2_conv_all_nth nth_list_update)

subsection \<open>The generator as a whole\<close>

lemma same_ids_length: "map box_id xs = map box_id ys \<Longrightarrow> length xs = length ys"
  by (rule map_eq_imp_length_eq)

lemma setFallbackConfiguration_total:
  "length (boxes st) = 3 \<Longrightarrow> \<exists>st2. setFallbackConfiguration st = Inr st2"
  by (simp add: setFallbackConfiguration_def)

lemma setFallbackConfiguration_result:
  assumes "length (boxes st) = 3" and "setFallbackConfiguration st = Inr st2"
  shows "userLabelSelections st2 = userLabelSelections st"
    and "map box_id (boxes st2) = map box_id (boxes st)"
    and "map (\<lambda>b. (contents b, label b)) (boxes st2) =
             [(''white-white'', ''Red and Red''), (''red-red'', ''Red and White''),
              (''red-white'', ''White and White'')]"
proof -
  obtain a b c where bs: "boxes st = [a, b, c]"
    using assms(1) by (auto simp: length_Suc_conv numeral_3_eq_3)
  have e: "st2 = st\<lparr>boxes :=
        [a\<lparr>contents := ''white-white'', label := ''Red and Red''\<rparr>,
         b\<lparr>contents := ''red-red'', label := ''Red and White''\<rparr>,
         c\<lparr>contents := ''red-white'', label := ''White and White''\<rparr>]\<rparr>"
    using assms(2) by (simp add: setFallbackConfiguration_def bs)
  show "userLabelSelections st2 = userLabelSelections st"
    and "map box_id (boxes st2) = map box_id (boxes st)"
    and "map (\<lambda>b. (contents b, label b)) (boxes st2) =
             [(''white-white'', ''Red and Red''), (''red-red'', ''Red and White''),
              (''red-white'', ''White and White'')]"
    by (simp_all add: e bs)
qed

lemma generatePuzzleConfiguration_success:
  "generateLoop rnd 0 st = (n, True, st') \<Longrightarrow> generatePuzzleConfiguration rnd st = Inr st'"
  by (simp add: generatePuzzleConfiguration_def)

lemma generatePuzzleConfiguration_fallback:
  "generateLoop rnd 0 st = (n, False, st') \<Longrightarrow>
     generatePuzzleConfiguration rnd st = setFallbackConfiguration st'"
  by (simp add: generatePuzzleConfiguration_def)

lemma generatePuzzleConfiguration_valid:
  assumes len: "length (boxes st) = 3"
    and sh: "\<forall>n. isShuffleOf (fst (rnd n)) BOX_CONTENTS \<and> isShuffleOf (snd (rnd n)) BOX_LABELS"
    and gen: "generatePuzzleConfiguration rnd st = Inr st1"
  shows "validConfiguration (boxes st1)"
proof -
  obtain n ok st' where loop: "generateLoop rnd 0 st = (n, ok, st')"
    using prod_cases3 by blast
  show ?thesis
  proof (cases ok)
    case True
    note loop' = loop [unfolded eqTrueI [OF True]]
    have e: "st1 = st'"
      using generatePuzzleConfiguration_success [OF loop'] gen by simp
    from generateLoop_success [OF loop'] obtain st0
      where ids: "map box_id (boxes st0) = map box_id (boxes st)"
        and t: "fst (tryGenerateValidConfiguration (rnd (n - 1)) st0)"
        and r: "st' = snd (tryGenerateValidConfiguration (rnd (n - 1)) st0)"
      by (elim exE conjE)
    have "length (boxes st0) = 3" using same_ids_length [OF ids] len by simp
    from tryGenerateValidConfiguration_valid [OF t
        sh [rule_format, THEN conjunct1] sh [rule_format, THEN conjunct2] this]
    show ?thesis unfolding e r .
  next
    case False
    have loop': "generateLoop rnd 0 st = (n, False, st')"
      using loop False by simp
    have len': "length (boxes st') = 3"
      using same_ids_length [OF generateLoop_frame [OF loop', THEN conjunct1]] len by simp
    have "setFallbackConfiguration st' = Inr st1"
      using generatePuzzleConfiguration_fallback [OF loop'] gen by simp
    from setFallbackConfiguration_result(3) [OF len' this] show ?thesis
      by (rule fallback_valid)
  qed
qed

lemma generateLoop_rotated:
  "generateLoop rotatedShuffles 0 GameState =
     (1, True, \<lparr>boxes = rotatedBoxes, userLabelSelections = userLabelSelections GameState\<rparr>)"
  by (subst generateLoop.simps)
    (simp add: MAX_ATTEMPTS_def
      rotatedShuffles_def GameState_def BOX_IDS_def BOX_CONTENTS_def rotatedBoxes_def
      tryGenerateValidConfiguration_def checkContentsMatchLabel_def normalizedLabel_values)

lemma identity_attempt_fails:
  "\<not> fst (tryGenerateValidConfiguration (identityShuffles k) GameState)"
  by (simp add: identityShuffles_def GameState_def BOX_IDS_def BOX_CONTENTS_def BOX_LABELS_def
      tryGenerateValidConfiguration_def checkContentsMatchLabel_def normalizedLabel_values)

lemma mset_rotate3: "mset [c, a, b] = mset [a, b, c]"
  by simp
lemma shuffles_rotated:
  "isShuffleOf (fst (rotatedShuffles n)) BOX_CONTENTS \<and>
   isShuffleOf (snd (rotatedShuffles n)) BOX_LABELS"
  unfolding rotatedShuffles_def isShuffleOf_def BOX_LABELS_def fst_conv snd_conv
  by (intro conjI refl mset_rotate3)

subsection \<open>Valid configurations\<close>

lemma validConfiguration_true_labels_distinct:
  assumes "validConfiguration bs"
  shows "distinct (map getCorrectLabelForBox bs)"
proof -
  have d: "distinct (map contents bs)" and s: "set (map contents bs) = set BOX_CONTENTS"
    using assms by (simp_all add: validConfiguration_def)
  have "inj_on getCorrectLabelForBox (set bs)"
  proof (rule inj_onI)
    fix x y :: box
    assume x: "x \<in> set bs" and y: "y \<in> set bs"
      and e: "getCorrectLabelForBox x = getCorrectLabelForBox y"
    have "contents x \<in> set BOX_CONTENTS" "contents y \<in> set BOX_CONTENTS"
      using x y s by auto
    then have "contents x = contents y"
      using e by (auto simp: BOX_CONTENTS_def getCorrectLabelForBox_values)
    then show "x = y"
      using d x y by (meson distinct_map inj_onD)
  qed
  moreover have "distinct bs" using d by (simp add: distinct_map)
  ultimately show ?thesis by (simp add: distinct_map)
qed

section \<open>Properties of the specification\<close>

text \<open>
  C1. Whatever orders the two shuffles produce, a configuration that
  \<^verbatim>\<open>generatePuzzleConfiguration\<close> leaves in the three boxes, from a successful attempt
  or from the fallback, has the three content kinds, each once, the three labels, each
  once, and on every box a label other than the one derived from its contents.
\<close>

theorem generated_configuration_invariants:
  assumes "length (boxes st) = 3"
    and "\<forall>n. isShuffleOf (fst (rnd n)) BOX_CONTENTS \<and> isShuffleOf (snd (rnd n)) BOX_LABELS"
    and "generatePuzzleConfiguration rnd st = Inr st1"
  shows "length (boxes st1) = 3 \<and>
         distinct (map contents (boxes st1)) \<and>
         set (map contents (boxes st1)) = set BOX_CONTENTS \<and>
         distinct (map label (boxes st1)) \<and>
         set (map label (boxes st1)) = set BOX_LABELS \<and>
         (\<forall>b\<in>set (boxes st1). JSString (label b) \<noteq> getCorrectLabelForBox b)"
  using generatePuzzleConfiguration_valid [OF assms]
  by (simp add: validConfiguration_def list_all_iff)

theorem generated_configuration_invariants_witness:
  "length (boxes GameState) = 3 \<and>
   (\<forall>n. isShuffleOf (fst (rotatedShuffles n)) BOX_CONTENTS \<and>
        isShuffleOf (snd (rotatedShuffles n)) BOX_LABELS) \<and>
   generatePuzzleConfiguration rotatedShuffles GameState =
     Inr \<lparr>boxes = rotatedBoxes, userLabelSelections = userLabelSelections GameState\<rparr> \<and>
   length rotatedBoxes = 3 \<and>
   distinct (map contents rotatedBoxes) \<and>
   set (map contents rotatedBoxes) = set BOX_CONTENTS \<and>
   distinct (map label rotatedBoxes) \<and>
   set (map label rotatedBoxes) = set BOX_LABELS \<and>
   list_all (\<lambda>b. JSString (label b) \<noteq> getCorrectLabelForBox b) rotatedBoxes"
proof -
  have len: "length (boxes GameState) = 3"
    by (simp add: GameState_def BOX_IDS_def)
  have sh: "\<forall>n. isShuffleOf (fst (rotatedShuffles n)) BOX_CONTENTS \<and>
        isShuffleOf (snd (rotatedShuffles n)) BOX_LABELS"
    using shuffles_rotated by (rule allI)
  have gen: "generatePuzzleConfiguration rotatedShuffles GameState =
     Inr \<lparr>boxes = rotatedBoxes, userLabelSelections = userLabelSelections GameState\<rparr>"
    using generateLoop_rotated by (rule generatePuzzleConfiguration_success)
  from generated_configuration_invariants [OF len sh gen]
  have "length rotatedBoxes = 3 \<and>
   distinct (map contents rotatedBoxes) \<and>
   set (map contents rotatedBoxes) = set BOX_CONTENTS \<and>
   distinct (map label rotatedBoxes) \<and>
   set (map label rotatedBoxes) = set BOX_LABELS \<and>
   list_all (\<lambda>b. JSString (label b) \<noteq> getCorrectLabelForBox b) rotatedBoxes"
    by (simp add: list_all_iff)
  with len sh gen show ?thesis by (elim conjE) (intro conjI; assumption)
qed

text \<open>
  C2 does not hold as stated. A finished round, with every label selected, is reset by
  \<^verbatim>\<open>resetGame\<close>: the boxes get a new configuration and every selection is empty
  again, so the set of guesses is incomplete. \<^verbatim>\<open>checkAnswers\<close> on that state raises
  nothing: it displays an ordinary result with score 0 of 3.
\<close>

theorem incomplete_guess_counterexample:
  "allSelected perfectGuessState \<and>
   resetGame rotatedShuffles perfectGuessState = Inr afterResetState \<and>
   \<not> allSelected afterResetState \<and>
   checkAnswers afterResetState =
     Inr \<lparr>correct = 0, total_n = 3,
          details =
            [\<lparr>boxId = ''matchbox-1'', boxNumber = 1,
              userSelection = JSString [],
              correctLabel = JSString ''White and White'',
              actualContents = ''white-white'', isCorrect = False\<rparr>,
             \<lparr>boxId = ''matchbox-2'', boxNumber = 2,
              userSelection = JSString [],
              correctLabel = JSString ''Red and Red'',
              actualContents = ''red-red'', isCorrect = False\<rparr>,
             \<lparr>boxId = ''matchbox-3'', boxNumber = 3,
              userSelection = JSString [],
              correctLabel = JSString ''Red and White'',
              actualContents = ''red-white'', isCorrect = False\<rparr>]\<rparr>"
proof -
  have a: "allSelected perfectGuessState"
    by (simp add: perfectGuessState_def allSelected_def)
  have "GameState_reset perfectGuessState = GameState"
    by (simp add: GameState_reset_def GameState_def perfectGuessState_def fallbackBoxes_def
        BOX_IDS_def)
  moreover have "generatePuzzleConfiguration rotatedShuffles GameState = Inr afterResetState"
    using generatePuzzleConfiguration_success [OF generateLoop_rotated]
    by (simp add: afterResetState_def GameState_def BOX_IDS_def)
  ultimately have r: "resetGame rotatedShuffles perfectGuessState = Inr afterResetState"
    by (simp add: resetGame_def)
  have n: "\<not> allSelected afterResetState"
    by (simp add: afterResetState_def allSelected_def)
  have c: "checkAnswers afterResetState =
     Inr \<lparr>correct = 0, total_n = 3,
          details =
            [\<lparr>boxId = ''matchbox-1'', boxNumber = 1,
              userSelection = JSString [],
              correctLabel = JSString ''White and White'',
              actualContents = ''white-white'', isCorrect = False\<rparr>,
             \<lparr>boxId = ''matchbox-2'', boxNumber = 2,
              userSelection = JSString [],
              correctLabel = JSString ''Red and Red'',
              actualContents = ''red-red'', isCorrect = False\<rparr>,
             \<lparr>boxId = ''matchbox-3'', boxNumber = 3,
              userSelection = JSString [],
              correctLabel = JSString ''Red and White'',
              actualContents = ''red-white'', isCorrect = False\<rparr>]\<rparr>"
    by (simp add: afterResetState_def rotatedBoxes_def checkAnswers_def
        calculateResults_def calculateResults_step_def Let_def js_get_def
        getCorrectLabelForBox_values)
  show ?thesis by (rule conjI [OF a conjI [OF r conjI [OF n c]]])
qed

text \<open>
  C2, amended. With an incomplete set of guesses the evaluation signals nothing: it
  returns the ordinary result, with the number of boxes as total and with the number of
  boxes whose selection equals the derived label as score; a box with an empty
  selection and contents among the three kinds counts as incorrect.
\<close>

theorem incomplete_guess_scored_without_signal:
  assumes "\<not> allSelected st"
  shows "checkAnswers st = Inr (calculateResults st) \<and>
         total_n (calculateResults st) = length (boxes st) \<and>
         correct (calculateResults st) =
           length (filter (\<lambda>b. js_get (userLabelSelections st) (box_id b) =
                                getCorrectLabelForBox b) (boxes st)) \<and>
         (\<forall>b\<in>set (boxes st).
            js_get (userLabelSelections st) (box_id b) = JSString [] \<longrightarrow>
            contents b \<in> set BOX_CONTENTS \<longrightarrow>
            js_get (userLabelSelections st) (box_id b) \<noteq> getCorrectLabelForBox b)"
proof -
  have "js_get (userLabelSelections st) (box_id b) \<noteq> getCorrectLabelForBox b"
    if "js_get (userLabelSelections st) (box_id b) = JSString []"
      and "contents b \<in> set BOX_CONTENTS" for b :: box
    using that by (auto simp: BOX_CONTENTS_def getCorrectLabelForBox_values)
  then show ?thesis
    by (simp add: checkAnswers_def calculateResults_def fold_total fold_correct)
qed

theorem incomplete_guess_scored_without_signal_witness:
  "\<not> allSelected afterResetState \<and>
   checkAnswers afterResetState = Inr (calculateResults afterResetState) \<and>
   total_n (calculateResults afterResetState) = 3 \<and>
   correct (calculateResults afterResetState) = 0"
proof -
  have h: "\<not> allSelected afterResetState"
    by (simp add: afterResetState_def allSelected_def)
  note T = incomplete_guess_scored_without_signal [OF h]
  have c: "checkAnswers afterResetState = Inr (calculateResults afterResetState)"
    using T by (elim conjE)
  have "total_n (calculateResults afterResetState) = length (boxes afterResetState)"
    using T by (elim conjE)
  also have "\<dots> = 3"
    by (simp add: afterResetState_def rotatedBoxes_def)
  finally have t: "total_n (calculateResults afterResetState) = 3" .
  have "correct (calculateResults afterResetState) =
           length (filter (\<lambda>b. js_get (userLabelSelections afterResetState) (box_id b) =
                                getCorrectLabelForBox b) (boxes afterResetState))"
    using T by (elim conjE)
  also have "\<dots> = 0"
    by (simp add: afterResetState_def rotatedBoxes_def js_get_def
        getCorrectLabelForBox_values)
  finally have n: "correct (calculateResults afterResetState) = 0" .
  show ?thesis by (rule conjI [OF h conjI [OF c conjI [OF t n]]])
qed

text \<open>
  C3. Started on three boxes, \<^verbatim>\<open>generatePuzzleConfiguration\<close> always completes, with
  no exception, whatever the random source gives. When no attempt within the first
  \<^verbatim>\<open>MAX_ATTEMPTS\<close> succeeds, the boxes hold the hardcoded fallback configuration. The
  fallback satisfies the three invariants; and when the shuffles are orderings of the
  two constant arrays, so does the configuration of every call.
\<close>

theorem generation_never_fails:
  assumes "length (boxes st) = 3"
  shows "\<exists>st1. generatePuzzleConfiguration rnd st = Inr st1 \<and>
           map box_id (boxes st1) = map box_id (boxes st) \<and>
           userLabelSelections st1 = userLabelSelections st \<and>
           ((\<nexists>k. k < MAX_ATTEMPTS \<and> fst (tryGenerateValidConfiguration (rnd k) st)) \<longrightarrow>
              map (\<lambda>b. (contents b, label b)) (boxes st1) =
                [(''white-white'', ''Red and Red''), (''red-red'', ''Red and White''),
                 (''red-white'', ''White and White'')] \<and>
              validConfiguration (boxes st1)) \<and>
           ((\<forall>n. isShuffleOf (fst (rnd n)) BOX_CONTENTS \<and>
                 isShuffleOf (snd (rnd n)) BOX_LABELS) \<longrightarrow>
              validConfiguration (boxes st1))"
proof -
  obtain n ok st' where loop: "generateLoop rnd 0 st = (n, ok, st')"
    using prod_cases3 by blast
  note F = generateLoop_frame [OF loop]
  have len': "length (boxes st') = 3"
    using same_ids_length [OF F [THEN conjunct1]] assms by simp
  have flag: "ok \<longleftrightarrow> (\<exists>k. k < MAX_ATTEMPTS \<and> fst (tryGenerateValidConfiguration (rnd k) st))"
    using generateLoop_flag [OF loop] by simp
  obtain st1 where gen: "generatePuzzleConfiguration rnd st = Inr st1"
  proof (cases ok)
    case True
    then show ?thesis
      using generatePuzzleConfiguration_success [of rnd st n st'] loop that by simp
  next
    case False
    then have "generatePuzzleConfiguration rnd st = setFallbackConfiguration st'"
      using generatePuzzleConfiguration_fallback [of rnd st n st'] loop by simp
    then show ?thesis
      using setFallbackConfiguration_total [OF len'] that by auto
  qed
  have frame: "map box_id (boxes st1) = map box_id (boxes st) \<and>
      userLabelSelections st1 = userLabelSelections st"
  proof (cases ok)
    case True
    then have "st1 = st'"
      using generatePuzzleConfiguration_success [of rnd st n st'] loop gen by simp
    then show ?thesis using F by simp
  next
    case False
    then have "setFallbackConfiguration st' = Inr st1"
      using generatePuzzleConfiguration_fallback [of rnd st n st'] loop gen by simp
    from setFallbackConfiguration_result(1,2) [OF len' this] show ?thesis
      using F by simp
  qed
  have fb: "map (\<lambda>b. (contents b, label b)) (boxes st1) =
                [(''white-white'', ''Red and Red''), (''red-red'', ''Red and White''),
                 (''red-white'', ''White and White'')] \<and>
              validConfiguration (boxes st1)"
    if "\<nexists>k. k < MAX_ATTEMPTS \<and> fst (tryGenerateValidConfiguration (rnd k) st)"
  proof -
    have "\<not> ok" using flag that by simp
    then have "setFallbackConfiguration st' = Inr st1"
      using generatePuzzleConfiguration_fallback [of rnd st n st'] loop gen by simp
    from setFallbackConfiguration_result(3) [OF len' this] show ?thesis
      by (simp add: fallback_valid)
  qed
  have v: "validConfiguration (boxes st1)"
    if "\<forall>n. isShuffleOf (fst (rnd n)) BOX_CONTENTS \<and> isShuffleOf (snd (rnd n)) BOX_LABELS"
    using generatePuzzleConfiguration_valid [OF assms that gen] .
  show ?thesis
    using gen frame fb v by (intro exI [of _ st1] conjI impI) simp_all
qed

theorem generation_never_fails_witness:
  "length (boxes GameState) = 3 \<and>
   (\<nexists>k. k < MAX_ATTEMPTS \<and> fst (tryGenerateValidConfiguration (identityShuffles k) GameState)) \<and>
   (\<exists>st1. generatePuzzleConfiguration identityShuffles GameState = Inr st1 \<and>
      map (\<lambda>b. (contents b, label b)) (boxes st1) =
        [(''white-white'', ''Red and Red''), (''red-red'', ''Red and White''),
         (''red-white'', ''White and White'')] \<and>
      validConfiguration (boxes st1))"
proof -
  have len: "length (boxes GameState) = 3"
    by (simp add: GameState_def BOX_IDS_def)
  have nf: "\<nexists>k. k < MAX_ATTEMPTS \<and>
      fst (tryGenerateValidConfiguration (identityShuffles k) GameState)"
    using identity_attempt_fails by simp
  from generation_never_fails [OF len, of identityShuffles] obtain st1
    where "generatePuzzleConfiguration identityShuffles GameState = Inr st1"
      and "(\<nexists>k. k < MAX_ATTEMPTS \<and>
              fst (tryGenerateValidConfiguration (identityShuffles k) GameState)) \<longrightarrow>
              map (\<lambda>b. (contents b, label b)) (boxes st1) =
                [(''white-white'', ''Red and Red''), (''red-red'', ''Red and White''),
                 (''red-white'', ''White and White'')] \<and>
              validConfiguration (boxes st1)"
    by (elim exE conjE)
  with nf have ex: "\<exists>st1. generatePuzzleConfiguration identityShuffles GameState = Inr st1 \<and>
      map (\<lambda>b. (contents b, label b)) (boxes st1) =
        [(''white-white'', ''Red and Red''), (''red-red'', ''Red and White''),
         (''red-white'', ''White and White'')] \<and>
      validConfiguration (boxes st1)"
    by (intro exI [of _ st1]) simp
  show ?thesis by (rule conjI [OF len conjI [OF nf ex]])
qed

text \<open>
  C4. The lookup from contents to true label is a function of the contents alone: a box
  holding \<^verbatim>\<open>'white-white'\<close> gets \<^verbatim>\<open>'White and White'\<close>, one holding \<^verbatim>\<open>'red-red'\<close>
  gets \<^verbatim>\<open>'Red and Red'\<close>, one holding \<^verbatim>\<open>'red-white'\<close> gets \<^verbatim>\<open>'Red and White'\<close>,
  whatever its label and id; and on the three content kinds it is a bijection onto the
  three labels.
\<close>

theorem getCorrectLabelForBox_bijection:
  fixes b :: box
  shows "(contents b = ''white-white'' \<longrightarrow> getCorrectLabelForBox b = JSString ''White and White'') \<and>
         (contents b = ''red-red'' \<longrightarrow> getCorrectLabelForBox b = JSString ''Red and Red'') \<and>
         (contents b = ''red-white'' \<longrightarrow> getCorrectLabelForBox b = JSString ''Red and White'') \<and>
         bij_betw (\<lambda>c. getCorrectLabelForBox (b\<lparr>contents := c\<rparr>))
           (set BOX_CONTENTS) (JSString ` set BOX_LABELS)"
proof -
  have "inj_on (\<lambda>c. getCorrectLabelForBox (b\<lparr>contents := c\<rparr>)) (set BOX_CONTENTS)"
    by (simp add: BOX_CONTENTS_def getCorrectLabelForBox_values)
  moreover have "(\<lambda>c. getCorrectLabelForBox (b\<lparr>contents := c\<rparr>)) ` set BOX_CONTENTS =
      JSString ` set BOX_LABELS"
    by (simp add: BOX_CONTENTS_def BOX_LABELS_def getCorrectLabelForBox_values)
  ultimately show ?thesis
    by (simp add: bij_betw_def getCorrectLabelForBox_values)
qed

theorem getCorrectLabelForBox_bijection_witness:
  "contents (hd fallbackBoxes) = ''white-white'' \<and>
   getCorrectLabelForBox (hd fallbackBoxes) = JSString ''White and White'' \<and>
   getCorrectLabelForBox ((hd fallbackBoxes)\<lparr>contents := ''red-red''\<rparr>) = JSString ''Red and Red'' \<and>
   getCorrectLabelForBox ((hd fallbackBoxes)\<lparr>contents := ''red-white''\<rparr>) = JSString ''Red and White''"
  using getCorrectLabelForBox_bijection [of "hd fallbackBoxes"]
    getCorrectLabelForBox_bijection [of "(hd fallbackBoxes)\<lparr>contents := ''red-red''\<rparr>"]
    getCorrectLabelForBox_bijection [of "(hd fallbackBoxes)\<lparr>contents := ''red-white''\<rparr>"]
  by (simp add: fallbackBoxes_def)

text \<open>
  C5. For a state with three boxes, \<^verbatim>\<open>calculateResults\<close> reports a total of 3, compares
  each box's selection with the label derived from its contents by equality of values,
  and the score is the number of boxes where the two are equal. When every box's
  selection is its derived label, the score is 3 and every box is marked correct.
\<close>

theorem calculateResults_counts_matches:
  assumes "length (boxes st) = 3"
  shows "total_n (calculateResults st) = 3 \<and>
         map userSelection (details (calculateResults st)) =
           map (\<lambda>b. js_get (userLabelSelections st) (box_id b)) (boxes st) \<and>
         map correctLabel (details (calculateResults st)) =
           map getCorrectLabelForBox (boxes st) \<and>
         map isCorrect (details (calculateResults st)) =
           map (\<lambda>b. js_get (userLabelSelections st) (box_id b) = getCorrectLabelForBox b)
             (boxes st) \<and>
         correct (calculateResults st) =
           length (filter (\<lambda>b. js_get (userLabelSelections st) (box_id b) =
                                getCorrectLabelForBox b) (boxes st)) \<and>
         ((\<forall>b\<in>set (boxes st). js_get (userLabelSelections st) (box_id b) =
                                getCorrectLabelForBox b) \<longrightarrow>
            correct (calculateResults st) = 3 \<and>
            map isCorrect (details (calculateResults st)) = [True, True, True])"
proof -
  obtain a b c where bs: "boxes st = [a, b, c]"
    using assms by (auto simp: length_Suc_conv numeral_3_eq_3)
  have t: "total_n (calculateResults st) = 3"
    using assms by (simp add: calculateResults_def fold_total)
  have u: "map userSelection (details (calculateResults st)) =
           map (\<lambda>b. js_get (userLabelSelections st) (box_id b)) (boxes st)"
    by (simp add: calculateResults_def fold_userSelection)
  have l: "map correctLabel (details (calculateResults st)) =
           map getCorrectLabelForBox (boxes st)"
    by (simp add: calculateResults_def fold_correctLabel)
  have i: "map isCorrect (details (calculateResults st)) =
           map (\<lambda>b. js_get (userLabelSelections st) (box_id b) = getCorrectLabelForBox b)
             (boxes st)"
    by (simp add: calculateResults_def fold_isCorrect)
  have n: "correct (calculateResults st) =
           length (filter (\<lambda>b. js_get (userLabelSelections st) (box_id b) =
                                getCorrectLabelForBox b) (boxes st))"
    by (simp add: calculateResults_def fold_correct)
  have p: "correct (calculateResults st) = 3 \<and>
            map isCorrect (details (calculateResults st)) = [True, True, True]"
    if "\<forall>b\<in>set (boxes st). js_get (userLabelSelections st) (box_id b) = getCorrectLabelForBox b"
    using that unfolding n i by (simp add: bs)
  from p have "(\<forall>b\<in>set (boxes st). js_get (userLabelSelections st) (box_id b) =
      getCorrectLabelForBox b) \<longrightarrow>
    correct (calculateResults st) = 3 \<and>
    map isCorrect (details (calculateResults st)) = [True, True, True]"
    by (rule impI)
  with t u l i n show ?thesis by (intro conjI)
qed

theorem calculateResults_counts_matches_witness:
  "length (boxes perfectGuessState) = 3 \<and>
   js_get (userLabelSelections perfectGuessState) ''matchbox-1'' =
     getCorrectLabelForBox (boxes perfectGuessState ! 0) \<and>
   js_get (userLabelSelections perfectGuessState) ''matchbox-2'' =
     getCorrectLabelForBox (boxes perfectGuessState ! 1) \<and>
   js_get (userLabelSelections perfectGuessState) ''matchbox-3'' =
     getCorrectLabelForBox (boxes perfectGuessState ! 2) \<and>
   total_n (calculateResults perfectGuessState) = 3 \<and>
   correct (calculateResults perfectGuessState) = 3 \<and>
   map isCorrect (details (calculateResults perfectGuessState)) = [True, True, True]"
proof -
  have len: "length (boxes perfectGuessState) = 3"
    by (simp add: perfectGuessState_def fallbackBoxes_def)
  have g: "js_get (userLabelSelections perfectGuessState) ''matchbox-1'' =
     getCorrectLabelForBox (boxes perfectGuessState ! 0)"
   "js_get (userLabelSelections perfectGuessState) ''matchbox-2'' =
     getCorrectLabelForBox (boxes perfectGuessState ! 1)"
   "js_get (userLabelSelections perfectGuessState) ''matchbox-3'' =
     getCorrectLabelForBox (boxes perfectGuessState ! 2)"
    by (simp_all add: perfectGuessState_def fallbackBoxes_def js_get_def
        getCorrectLabelForBox_values)
  have all: "\<forall>b\<in>set (boxes perfectGuessState).
      js_get (userLabelSelections perfectGuessState) (box_id b) = getCorrectLabelForBox b"
    by (simp add: perfectGuessState_def fallbackBoxes_def js_get_def
        getCorrectLabelForBox_values)
  note T = calculateResults_counts_matches [OF len]
  have "correct (calculateResults perfectGuessState) = 3 \<and>
        map isCorrect (details (calculateResults perfectGuessState)) = [True, True, True]"
    using T all by (elim conjE) (erule mp)
  moreover have "total_n (calculateResults perfectGuessState) = 3" using T by (elim conjE)
  ultimately show ?thesis using len g by (intro conjI) (elim conjE, assumption)+
qed

text \<open>
  C6. In a valid configuration, take the guesses that give every box its derived label
  and exchange the guesses of two boxes \<open>i\<close> and \<open>j\<close>. The score is 1: the two
  exchanged guesses are wrong, the third is right.
\<close>

theorem swapped_guess_scores_one:
  assumes "validConfiguration (boxes st)"
    and "i < 3" and "j < 3" and "i \<noteq> j"
    and "\<forall>k<3. js_get (userLabelSelections st) (box_id (boxes st ! k)) =
           getCorrectLabelForBox (boxes st ! (if k = i then j else if k = j then i else k))"
  shows "correct (calculateResults st) = 1"
proof -
  have len: "length (boxes st) = 3"
    using assms(1) by (simp add: validConfiguration_def)
  then obtain a b c where bs: "boxes st = [a, b, c]"
    by (auto simp: length_Suc_conv numeral_3_eq_3)
  have "distinct (map getCorrectLabelForBox (boxes st))"
    using assms(1) by (rule validConfiguration_true_labels_distinct)
  then have d: "getCorrectLabelForBox a \<noteq> getCorrectLabelForBox b"
      "getCorrectLabelForBox a \<noteq> getCorrectLabelForBox c"
      "getCorrectLabelForBox b \<noteq> getCorrectLabelForBox c"
    by (simp_all add: bs)
  have g0: "js_get (userLabelSelections st) (box_id a) =
      getCorrectLabelForBox ([a, b, c] ! (if 0 = i then j else if 0 = j then i else 0))"
    using assms(5) [rule_format, of 0] by (simp add: bs)
  have g1: "js_get (userLabelSelections st) (box_id b) =
      getCorrectLabelForBox ([a, b, c] ! (if 1 = i then j else if 1 = j then i else 1))"
    using assms(5) [rule_format, of 1] by (simp add: bs)
  have g2: "js_get (userLabelSelections st) (box_id c) =
      getCorrectLabelForBox ([a, b, c] ! (if 2 = i then j else if 2 = j then i else 2))"
    using assms(5) [rule_format, of 2] by (simp add: bs)
  note d' = d d [symmetric]
  consider "i = 0 \<and> j = 1" | "i = 0 \<and> j = 2" | "i = 1 \<and> j = 0"
    | "i = 1 \<and> j = 2" | "i = 2 \<and> j = 0" | "i = 2 \<and> j = 1"
    using assms(2,3,4) by linarith
  then have "length (filter (\<lambda>x. js_get (userLabelSelections st) (box_id x) =
          getCorrectLabelForBox x) [a, b, c]) = 1"
  proof cases
    case 1
    with g0 g1 g2 have "js_get (userLabelSelections st) (box_id a) = getCorrectLabelForBox b"
      "js_get (userLabelSelections st) (box_id b) = getCorrectLabelForBox a"
      "js_get (userLabelSelections st) (box_id c) = getCorrectLabelForBox c"
      by simp_all
    with d' show ?thesis by simp
  next
    case 2
    with g0 g1 g2 have "js_get (userLabelSelections st) (box_id a) = getCorrectLabelForBox c"
      "js_get (userLabelSelections st) (box_id b) = getCorrectLabelForBox b"
      "js_get (userLabelSelections st) (box_id c) = getCorrectLabelForBox a"
      by simp_all
    with d' show ?thesis by simp
  next
    case 3
    with g0 g1 g2 have "js_get (userLabelSelections st) (box_id a) = getCorrectLabelForBox b"
      "js_get (userLabelSelections st) (box_id b) = getCorrectLabelForBox a"
      "js_get (userLabelSelections st) (box_id c) = getCorrectLabelForBox c"
      by simp_all
    with d' show ?thesis by simp
  next
    case 4
    with g0 g1 g2 have "js_get (userLabelSelections st) (box_id a) = getCorrectLabelForBox a"
      "js_get (userLabelSelections st) (box_id b) = getCorrectLabelForBox c"
      "js_get (userLabelSelections st) (box_id c) = getCorrectLabelForBox b"
      by simp_all
    with d' show ?thesis by simp
  next
    case 5
    with g0 g1 g2 have "js_get (userLabelSelections st) (box_id a) = getCorrectLabelForBox c"
      "js_get (userLabelSelections st) (box_id b) = getCorrectLabelForBox b"
      "js_get (userLabelSelections st) (box_id c) = getCorrectLabelForBox a"
      by simp_all
    with d' show ?thesis by simp
  next
    case 6
    with g0 g1 g2 have "js_get (userLabelSelections st) (box_id a) = getCorrectLabelForBox a"
      "js_get (userLabelSelections st) (box_id b) = getCorrectLabelForBox c"
      "js_get (userLabelSelections st) (box_id c) = getCorrectLabelForBox b"
      by simp_all
    with d' show ?thesis by simp
  qed
  moreover have "correct (calculateResults st) =
      length (filter (\<lambda>x. js_get (userLabelSelections st) (box_id x) =
          getCorrectLabelForBox x) (boxes st))"
    by (simp add: calculateResults_def fold_correct)
  ultimately show ?thesis by (simp only: bs)
qed


theorem swapped_guess_scores_one_witness:
  "validConfiguration (boxes swappedGuessState) \<and>
   js_get (userLabelSelections swappedGuessState) (box_id (boxes swappedGuessState ! 0)) =
     getCorrectLabelForBox (boxes swappedGuessState ! 1) \<and>
   js_get (userLabelSelections swappedGuessState) (box_id (boxes swappedGuessState ! 1)) =
     getCorrectLabelForBox (boxes swappedGuessState ! 0) \<and>
   js_get (userLabelSelections swappedGuessState) (box_id (boxes swappedGuessState ! 2)) =
     getCorrectLabelForBox (boxes swappedGuessState ! 2) \<and>
   correct (calculateResults swappedGuessState) = 1"
proof -
  have v: "validConfiguration (boxes swappedGuessState)"
    by (rule fallback_valid) (simp add: swappedGuessState_def fallbackBoxes_def)
  have g: "js_get (userLabelSelections swappedGuessState) (box_id (boxes swappedGuessState ! 0)) =
     getCorrectLabelForBox (boxes swappedGuessState ! 1)"
   "js_get (userLabelSelections swappedGuessState) (box_id (boxes swappedGuessState ! 1)) =
     getCorrectLabelForBox (boxes swappedGuessState ! 0)"
   "js_get (userLabelSelections swappedGuessState) (box_id (boxes swappedGuessState ! 2)) =
     getCorrectLabelForBox (boxes swappedGuessState ! 2)"
    by (simp_all add: swappedGuessState_def fallbackBoxes_def js_get_def
        getCorrectLabelForBox_values)
  have h: "\<forall>k<3. js_get (userLabelSelections swappedGuessState)
             (box_id (boxes swappedGuessState ! k)) =
           getCorrectLabelForBox (boxes swappedGuessState !
             (if k = 0 then 1 else if k = 1 then 0 else k))"
  proof (intro allI impI)
    fix k :: nat
    assume "k < 3"
    then consider "k = 0" | "k = 1" | "k = 2" by linarith
    then show "js_get (userLabelSelections swappedGuessState)
             (box_id (boxes swappedGuessState ! k)) =
           getCorrectLabelForBox (boxes swappedGuessState !
             (if k = 0 then 1 else if k = 1 then 0 else k))"
      using g by cases simp_all
  qed
  have "correct (calculateResults swappedGuessState) = 1"
    by (rule swapped_guess_scores_one [OF v _ _ _ h]) simp_all
  with v g show ?thesis by (intro conjI)
qed

text \<open>
  C7. The retry loop calls \<^verbatim>\<open>tryGenerateValidConfiguration\<close> at least once and at most
  \<^verbatim>\<open>MAX_ATTEMPTS\<close> = 50 times, whatever the random source gives; and when it ends
  without a successful attempt, it has made exactly 50 attempts and the generator takes
  the fallback.
\<close>

theorem attempts_bounded_by_MAX_ATTEMPTS:
  "1 \<le> attemptsMade rnd st \<and> attemptsMade rnd st \<le> MAX_ATTEMPTS \<and> MAX_ATTEMPTS = 50 \<and>
   (\<not> fst (snd (generateLoop rnd 0 st)) \<longrightarrow>
      attemptsMade rnd st = MAX_ATTEMPTS \<and>
      generatePuzzleConfiguration rnd st =
        setFallbackConfiguration (snd (snd (generateLoop rnd 0 st))))"
proof -
  obtain n ok st' where loop: "generateLoop rnd 0 st = (n, ok, st')"
    using prod_cases3 by blast
  have b: "n \<le> MAX_ATTEMPTS \<and> (\<not> ok \<longrightarrow> n = MAX_ATTEMPTS) \<and> (ok \<longrightarrow> 0 < n)"
    using generateLoop_bound [OF loop] by simp
  have "1 \<le> n" using b by (cases ok) (simp_all add: MAX_ATTEMPTS_def)
  moreover have "generatePuzzleConfiguration rnd st = setFallbackConfiguration st'" if "\<not> ok"
    using that loop by (simp add: generatePuzzleConfiguration_def)
  ultimately show ?thesis
    using b by (simp add: attemptsMade_def loop) (simp add: MAX_ATTEMPTS_def)
qed

theorem attempts_bounded_by_MAX_ATTEMPTS_witness:
  "\<not> fst (snd (generateLoop identityShuffles 0 GameState)) \<and>
   attemptsMade identityShuffles GameState = 50 \<and>
   attemptsMade rotatedShuffles GameState = 1"
proof -
  obtain n ok st' where loop: "generateLoop identityShuffles 0 GameState = (n, ok, st')"
    using prod_cases3 by blast
  have "\<not> ok"
    using generateLoop_flag [OF loop] identity_attempt_fails by simp
  then have f: "\<not> fst (snd (generateLoop identityShuffles 0 GameState))"
    by (simp add: loop)
  note T = attempts_bounded_by_MAX_ATTEMPTS [of identityShuffles GameState]
  have "attemptsMade identityShuffles GameState = MAX_ATTEMPTS"
    using T f by (elim conjE) (drule (1) mp, elim conjE)
  moreover have "MAX_ATTEMPTS = 50" using T by (elim conjE)
  moreover have "attemptsMade rotatedShuffles GameState = 1"
    by (simp add: attemptsMade_def generateLoop_rotated)
  ultimately show ?thesis using f by simp
qed

text \<open>
  C8. The label derived for a box depends on its contents only: two boxes with the same
  contents get the same derived label, whatever labels they display. So the result of
  \<^verbatim>\<open>calculateResults\<close>, with every verdict in it, stays the same when the displayed
  label of any box is changed.
\<close>

theorem displayed_label_does_not_influence_evaluation:
  fixes b1 b2 :: box
  shows "(contents b1 = contents b2 \<longrightarrow> getCorrectLabelForBox b1 = getCorrectLabelForBox b2) \<and>
         getCorrectLabelForBox (b1\<lparr>label := l\<rparr>) = getCorrectLabelForBox b1 \<and>
         calculateResults (st\<lparr>boxes := (boxes st)[i := (boxes st ! i)\<lparr>label := l\<rparr>]\<rparr>) =
           calculateResults st"
proof -
  have "calculateResults (st\<lparr>boxes := (boxes st)[i := (boxes st ! i)\<lparr>label := l\<rparr>]\<rparr>) =
           calculateResults st"
    using fold_cong [OF relabel_related] by (simp add: calculateResults_def)
  then show ?thesis
    by (simp add: getCorrectLabelForBox_def)
qed

theorem displayed_label_does_not_influence_evaluation_witness:
  "contents (fallbackBoxes ! 0) = contents ((fallbackBoxes ! 0)\<lparr>label := ''Red and White''\<rparr>) \<and>
   label (fallbackBoxes ! 0) \<noteq> label ((fallbackBoxes ! 0)\<lparr>label := ''Red and White''\<rparr>) \<and>
   getCorrectLabelForBox (fallbackBoxes ! 0) =
     getCorrectLabelForBox ((fallbackBoxes ! 0)\<lparr>label := ''Red and White''\<rparr>) \<and>
   calculateResults (swappedGuessState\<lparr>boxes :=
       (boxes swappedGuessState)[0 := (boxes swappedGuessState ! 0)\<lparr>label := ''Red and White''\<rparr>]\<rparr>) =
     calculateResults swappedGuessState"
proof -
  have c: "contents (fallbackBoxes ! 0) =
      contents ((fallbackBoxes ! 0)\<lparr>label := ''Red and White''\<rparr>)"
    by simp
  have d: "label (fallbackBoxes ! 0) \<noteq> label ((fallbackBoxes ! 0)\<lparr>label := ''Red and White''\<rparr>)"
    by (simp add: fallbackBoxes_def)
  note T = displayed_label_does_not_influence_evaluation
    [of "fallbackBoxes ! 0" "(fallbackBoxes ! 0)\<lparr>label := ''Red and White''\<rparr>"
        "''Red and White''" swappedGuessState 0]
  have "getCorrectLabelForBox (fallbackBoxes ! 0) =
     getCorrectLabelForBox ((fallbackBoxes ! 0)\<lparr>label := ''Red and White''\<rparr>)"
    using T c by (elim conjE) (erule mp)
  moreover have "calculateResults (swappedGuessState\<lparr>boxes :=
       (boxes swappedGuessState)[0 := (boxes swappedGuessState ! 0)\<lparr>label := ''Red and White''\<rparr>]\<rparr>) =
     calculateResults swappedGuessState"
    using T by (elim conjE)
  ultimately show ?thesis using c d by (intro conjI)
qed

text \<open>
  C9. On the three content kinds and the three labels the generator's check, which
  normalises the label string, holds exactly when the label is the one the evaluator's
  table gives for the contents. So the scan of \<^verbatim>\<open>assignLabelToBox\<close> accepts exactly the
  labels that differ from the evaluator's true label: it computes the same as the scan
  written with the lookup.
\<close>

theorem checkContentsMatchLabel_agrees_with_lookup:
  "(\<forall>c\<in>set BOX_CONTENTS. \<forall>l\<in>set BOX_LABELS. \<forall>l'.
      checkContentsMatchLabel \<lparr>contents = c, label = l\<rparr> \<longleftrightarrow>
      JSString l = getCorrectLabelForBox \<lparr>contents = c, label = l'\<rparr>) \<and>
   (\<forall>b shuffledLabels usedLabels.
      contents b \<in> set BOX_CONTENTS \<longrightarrow> set shuffledLabels \<subseteq> set BOX_LABELS \<longrightarrow>
      assignLabelToBox b shuffledLabels usedLabels =
      assignLabelToBox_byLookup b shuffledLabels usedLabels)"
proof (intro conjI ballI allI impI)
  fix c l l'
  assume c: "c \<in> set BOX_CONTENTS" and l: "l \<in> set BOX_LABELS"
  have "getCorrectLabelForBox \<lparr>contents = c, label = l'\<rparr> =
        getCorrectLabelForBox \<lparr>contents = c, label = l\<rparr>"
    by (rule getCorrectLabelForBox_contents) simp
  then show "checkContentsMatchLabel \<lparr>contents = c, label = l\<rparr> \<longleftrightarrow>
      JSString l = getCorrectLabelForBox \<lparr>contents = c, label = l'\<rparr>"
    using match_iff_lookup [of "\<lparr>contents = c, label = l\<rparr>"] c l by simp
next
  fix b :: box and shuffledLabels usedLabels
  assume c: "contents b \<in> set BOX_CONTENTS" and "set shuffledLabels \<subseteq> set BOX_LABELS"
  then show "assignLabelToBox b shuffledLabels usedLabels =
      assignLabelToBox_byLookup b shuffledLabels usedLabels"
  proof (induction shuffledLabels)
    case Nil
    show ?case by simp
  next
    case (Cons l rest)
    have "checkContentsMatchLabel \<lparr>contents = contents b, label = l\<rparr> \<longleftrightarrow>
        JSString l = getCorrectLabelForBox \<lparr>contents = contents b, label = l\<rparr>"
      using match_iff_lookup [of "\<lparr>contents = contents b, label = l\<rparr>"] Cons.prems by simp
    then show ?case using Cons by simp
  qed
qed

theorem checkContentsMatchLabel_agrees_with_lookup_witness:
  "checkContentsMatchLabel \<lparr>contents = ''red-white'', label = ''Red and White''\<rparr> \<and>
   JSString ''Red and White'' = getCorrectLabelForBox \<lparr>contents = ''red-white'', label = []\<rparr> \<and>
   \<not> checkContentsMatchLabel \<lparr>contents = ''red-white'', label = ''Red and Red''\<rparr> \<and>
   JSString ''Red and Red'' \<noteq> getCorrectLabelForBox \<lparr>contents = ''red-white'', label = []\<rparr> \<and>
   assignLabelToBox (fallbackBoxes ! 2) BOX_LABELS {''Red and Red''} =
     (True, fallbackBoxes ! 2, {''White and White'', ''Red and Red''}) \<and>
   assignLabelToBox_byLookup (fallbackBoxes ! 2) BOX_LABELS {''Red and Red''} =
     (True, fallbackBoxes ! 2, {''White and White'', ''Red and Red''})"
proof -
  have c: "''red-white'' \<in> set BOX_CONTENTS" by (simp add: BOX_CONTENTS_def)
  have l1: "''Red and White'' \<in> set BOX_LABELS" and l2: "''Red and Red'' \<in> set BOX_LABELS"
    by (simp_all add: BOX_LABELS_def)
  have c2: "contents (fallbackBoxes ! 2) \<in> set BOX_CONTENTS"
    by (simp add: fallbackBoxes_def BOX_CONTENTS_def)
  have g: "getCorrectLabelForBox \<lparr>contents = ''red-white'', label = []\<rparr> = JSString ''Red and White''"
    by (simp add: getCorrectLabelForBox_values)
  have a: "assignLabelToBox_byLookup (fallbackBoxes ! 2) BOX_LABELS {''Red and Red''} =
     (True, fallbackBoxes ! 2, {''White and White'', ''Red and Red''})"
    by (simp add: fallbackBoxes_def BOX_LABELS_def getCorrectLabelForBox_values)
  note T = checkContentsMatchLabel_agrees_with_lookup
  have "checkContentsMatchLabel \<lparr>contents = ''red-white'', label = ''Red and White''\<rparr>"
    using T [THEN conjunct1, rule_format, OF c l1, of "[]"] g by simp
  moreover have "\<not> checkContentsMatchLabel \<lparr>contents = ''red-white'', label = ''Red and Red''\<rparr>"
    using T [THEN conjunct1, rule_format, OF c l2, of "[]"] g by simp
  moreover have "assignLabelToBox (fallbackBoxes ! 2) BOX_LABELS {''Red and Red''} =
      assignLabelToBox_byLookup (fallbackBoxes ! 2) BOX_LABELS {''Red and Red''}"
    using T [THEN conjunct2, rule_format, OF c2 subset_refl] .
  ultimately show ?thesis using g a by simp
qed




end
